theory Spec2Isabelle
  imports Main "HOL-Library.Word" "HOL-Library.AList" "HOL-Library.List_Lexorder"
    "HOL-Library.Char_ord" "HOL-Library.Sublist"
begin

unbundle bit_operations_syntax

section \<open>Python values, exceptions and comparison results\<close>

text \<open>
  The module \<^verbatim>\<open>josepy/util.py\<close> wraps certificates and keys and defines two immutable
  containers. The values that flow through it are Python objects; the ones the code
  inspects are integers, strings, byte strings, classes (used as the first component of
  hashed tuples), tuples, and attributes found on a class (bound methods and class
  variables, which \<^verbatim>\<open>getattr\<close> returns as readily as stored field values).
  Python's \<^verbatim>\<open>==\<close> on these values is structural, so HOL equality stands for it.
\<close>

type_synonym bytes = "8 word list"

datatype pyval =
    PyNone
  | PyInt int
  | PyStr string
  | PyBytes bytes
  | PyClass string
  | PyClassAttr string string
  | PyTuple "pyval list"

text \<open>Exceptions raised by the module or by the runtime on its behalf, with their argument.\<close>

datatype error =
    TypeError string
  | AttributeError string
  | KeyError string
  | AssertionError

text \<open>
  A rich comparison method returns a truth value or the singleton \<^verbatim>\<open>NotImplemented\<close>
  ("not comparable").
\<close>

datatype cmp = NotImplemented | Bool bool

text \<open>\<^verbatim>\<open>', '.join(...)\<close> and friends.\<close>

fun join :: "string \<Rightarrow> string list \<Rightarrow> string" where
  "join sep [] = []"
| "join sep [x] = x"
| "join sep (x # y # ys) = x @ sep @ join sep (y # ys)"

text \<open>A name between single quotes, as the runtime prints type names in its messages.\<close>

definition quoted :: "string \<Rightarrow> string" where
  "quoted s = [CHR 0x27] @ s @ [CHR 0x27]"

section \<open>The built-in hash\<close>

text \<open>
  Every \<^verbatim>\<open>__hash__\<close> of the module builds a tuple and passes it to the built-in
  \<^verbatim>\<open>hash\<close>. The models below take the built-in as a parameter \<open>H\<close>, so what is proved of
  them holds whatever the interpreter computes. To evaluate a hash at a concrete input,
  \<open>cpython_hash\<close> gives the value CPython (3.8 and later, 64 bit) computes for integers and
  for tuples; hashes of strings, byte strings and classes depend on the process (seed,
  addresses) and are taken from the parameter \<open>S\<close>.
\<close>

definition int_hash :: "int \<Rightarrow> int" where
  "int_hash i =
     (let h = sgn i * (\<bar>i\<bar> mod (2 ^ 61 - 1)) in if h = - 1 then - 2 else h)"

definition XXPRIME_1 :: "64 word" where "XXPRIME_1 = 11400714785074694791"
definition XXPRIME_2 :: "64 word" where "XXPRIME_2 = 14029467366897019727"
definition XXPRIME_5 :: "64 word" where "XXPRIME_5 = 2870177450012600261"

definition XXROTATE :: "64 word \<Rightarrow> 64 word" where
  "XXROTATE x = (push_bit 31 x) OR (drop_bit 33 x)"

fun tuplehash_loop :: "64 word \<Rightarrow> 64 word list \<Rightarrow> 64 word" where
  "tuplehash_loop acc [] = acc"
| "tuplehash_loop acc (lane # lanes) =
     tuplehash_loop (XXROTATE (acc + lane * XXPRIME_2) * XXPRIME_1) lanes"

definition tuplehash :: "64 word list \<Rightarrow> int" where
  "tuplehash lanes =
     (let acc = tuplehash_loop XXPRIME_5 lanes
                + (word_of_nat (length lanes) XOR (XXPRIME_5 XOR 3527539))
      in if acc = - 1 then 1546275796 else sint acc)"

fun cpython_hash :: "(pyval \<Rightarrow> int) \<Rightarrow> pyval \<Rightarrow> int" where
  "cpython_hash S (PyInt i) = int_hash i"
| "cpython_hash S (PyTuple vs) = tuplehash (map (\<lambda>v. word_of_int (cpython_hash S v)) vs)"
| "cpython_hash S v = S v"

section \<open>Wrapped objects\<close>

subsection \<open>Certificates and certificate requests\<close>

text \<open>
  The wrapped object of a \<^verbatim>\<open>ComparableX509\<close> is an \<^verbatim>\<open>OpenSSL.crypto.X509\<close> or an
  \<^verbatim>\<open>OpenSSL.crypto.X509Req\<close>. The wrapper observes it only through
  \<^verbatim>\<open>dump_certificate\<close> and \<^verbatim>\<open>dump_certificate_request\<close>, so an object is represented by
  what these return for each file type.
\<close>

datatype filetype = FILETYPE_ASN1 | FILETYPE_PEM | FILETYPE_TEXT

datatype x509_object = X509 "filetype \<Rightarrow> bytes" | X509Req "filetype \<Rightarrow> bytes"

definition dump_certificate :: "filetype \<Rightarrow> (filetype \<Rightarrow> bytes) \<Rightarrow> bytes" where
  "dump_certificate ft cert = cert ft"

definition dump_certificate_request :: "filetype \<Rightarrow> (filetype \<Rightarrow> bytes) \<Rightarrow> bytes" where
  "dump_certificate_request ft req = req ft"

subsection \<open>Keys of the cryptography package\<close>

text \<open>
  The key wrappers read a key through its class, through \<^verbatim>\<open>private_numbers()\<close>,
  \<^verbatim>\<open>public_numbers()\<close> and \<^verbatim>\<open>public_key()\<close>, and (in \<^verbatim>\<open>ComparableOKPKey.__hash__\<close>)
  through the attributes \<^verbatim>\<open>curve\<close> and \<^verbatim>\<open>x\<close>. A key is represented by the data these
  return. Which class offers which attribute follows the package's interfaces: private
  RSA and elliptic-curve keys have \<^verbatim>\<open>private_numbers\<close> and \<^verbatim>\<open>public_key\<close>, their public
  keys have \<^verbatim>\<open>public_numbers\<close>; elliptic-curve keys have \<^verbatim>\<open>curve\<close>; the Ed25519, Ed448,
  X25519 and X448 keys named in the docstring of \<^verbatim>\<open>ComparableOKPKey\<close> have raw bytes
  only, \<^verbatim>\<open>public_key\<close> on the private side, and none of \<^verbatim>\<open>private_numbers\<close>,
  \<^verbatim>\<open>public_numbers\<close>, \<^verbatim>\<open>curve\<close>, \<^verbatim>\<open>x\<close>.
\<close>

datatype rsa_public_numbers = RSAPublicNumbers (pub_e: int) (pub_n: int)

datatype rsa_private_numbers =
  RSAPrivateNumbers (priv_p: int) (priv_q: int) (priv_d: int) (priv_dmp1: int)
    (priv_dmq1: int) (priv_iqmp: int) (rsa_public: rsa_public_numbers)

datatype elliptic_curve = EllipticCurve (curve_name: string) (curve_key_size: nat)

datatype ec_public_numbers =
  EllipticCurvePublicNumbers (ec_x: int) (ec_y: int) (ec_curve: elliptic_curve)

datatype ec_private_numbers =
  EllipticCurvePrivateNumbers (private_value: int) (ec_public: ec_public_numbers)

datatype okp_kind = Ed25519 | Ed448 | X25519 | X448

datatype key =
    RSAPrivateKey rsa_private_numbers
  | RSAPublicKey rsa_public_numbers
  | EllipticCurvePrivateKey ec_private_numbers
  | EllipticCurvePublicKey ec_public_numbers
  | OKPPrivateKey okp_kind bytes bytes
  | OKPPublicKey okp_kind bytes

text \<open>
  An OKP private key carries its raw private bytes and the raw bytes of the public key
  derived from them.
\<close>

datatype key_class =
    RSAPrivateKey_class
  | RSAPublicKey_class
  | EllipticCurvePrivateKey_class
  | EllipticCurvePublicKey_class
  | OKPPrivateKey_class okp_kind
  | OKPPublicKey_class okp_kind

fun class_of :: "key \<Rightarrow> key_class" where
  "class_of (RSAPrivateKey _) = RSAPrivateKey_class"
| "class_of (RSAPublicKey _) = RSAPublicKey_class"
| "class_of (EllipticCurvePrivateKey _) = EllipticCurvePrivateKey_class"
| "class_of (EllipticCurvePublicKey _) = EllipticCurvePublicKey_class"
| "class_of (OKPPrivateKey k _ _) = OKPPrivateKey_class k"
| "class_of (OKPPublicKey k _) = OKPPublicKey_class k"

datatype numbers =
    RSAPrivate rsa_private_numbers
  | RSAPublic rsa_public_numbers
  | ECPrivate ec_private_numbers
  | ECPublic ec_public_numbers

text \<open>Attribute access on a key: the value, or the \<^verbatim>\<open>AttributeError\<close> for a missing name.\<close>

fun private_numbers :: "key \<Rightarrow> error + numbers" where
  "private_numbers (RSAPrivateKey pn) = Inr (RSAPrivate pn)"
| "private_numbers (EllipticCurvePrivateKey pn) = Inr (ECPrivate pn)"
| "private_numbers _ = Inl (AttributeError ''private_numbers'')"

fun public_numbers :: "key \<Rightarrow> error + numbers" where
  "public_numbers (RSAPublicKey pn) = Inr (RSAPublic pn)"
| "public_numbers (EllipticCurvePublicKey pn) = Inr (ECPublic pn)"
| "public_numbers _ = Inl (AttributeError ''public_numbers'')"

fun public_key :: "key \<Rightarrow> error + key" where
  "public_key (RSAPrivateKey pn) = Inr (RSAPublicKey (rsa_public pn))"
| "public_key (EllipticCurvePrivateKey pn) = Inr (EllipticCurvePublicKey (ec_public pn))"
| "public_key (OKPPrivateKey k priv pub) = Inr (OKPPublicKey k pub)"
| "public_key _ = Inl (AttributeError ''public_key'')"

fun key_curve :: "key \<Rightarrow> error + elliptic_curve" where
  "key_curve (EllipticCurvePrivateKey pn) = Inr (ec_curve (ec_public pn))"
| "key_curve (EllipticCurvePublicKey pn) = Inr (ec_curve pn)"
| "key_curve _ = Inl (AttributeError ''curve'')"

fun key_x :: "key \<Rightarrow> error + pyval" where
  "key_x _ = Inl (AttributeError ''x'')"

text \<open>
  \<^verbatim>\<open>hasattr(key, name)\<close>, for the names the module asks a key for:
  \<^verbatim>\<open>'private_numbers'\<close>, \<^verbatim>\<open>'public_numbers'\<close>, \<^verbatim>\<open>'public_key'\<close>, and the two attributes
  read by \<^verbatim>\<open>ComparableOKPKey.__hash__\<close>.
\<close>

datatype attribute = PRIVATE_NUMBERS | PUBLIC_NUMBERS | PUBLIC_KEY | CURVE | X_COORDINATE

fun hasattr :: "key \<Rightarrow> attribute \<Rightarrow> bool" where
  "hasattr k PRIVATE_NUMBERS = (\<not> isl (private_numbers k))"
| "hasattr k PUBLIC_NUMBERS = (\<not> isl (public_numbers k))"
| "hasattr k PUBLIC_KEY = (\<not> isl (public_key k))"
| "hasattr k CURVE = (\<not> isl (key_curve k))"
| "hasattr k X_COORDINATE = (\<not> isl (key_x k))"

text \<open>\<^verbatim>\<open>numbers.public_key(backend)\<close>: the public key rebuilt from public numbers.\<close>

fun numbers_public_key :: "numbers \<Rightarrow> error + key" where
  "numbers_public_key (RSAPublic pn) = Inr (RSAPublicKey pn)"
| "numbers_public_key (ECPublic pn) = Inr (EllipticCurvePublicKey pn)"
| "numbers_public_key _ = Inl (AttributeError ''public_key'')"

subsection \<open>Wrappers, records and frozen dictionaries as objects\<close>

datatype wrapper_class = ComparableKey | ComparableRSAKey | ComparableECKey | ComparableOKPKey

record wrapper =
  wclass :: wrapper_class
  wrapped :: key

text \<open>
  A subclass of \<^verbatim>\<open>ImmutableMap\<close> is its name, its \<^verbatim>\<open>__slots__\<close> and the names it
  inherits or adds beside those bound in the body of \<^verbatim>\<open>ImmutableMap\<close> itself. An
  instance stores one value per slot that has been set.
\<close>

record rectype =
  cname :: string
  slots :: "string list"
  inherited :: "string list"

record imap =
  itype :: rectype
  attrs :: "(string \<times> pyval) list"

text \<open>
  A \<^verbatim>\<open>frozendict\<close> has the two slots \<^verbatim>\<open>_items\<close> and \<^verbatim>\<open>_keys\<close>. A Python \<^verbatim>\<open>dict\<close> is an
  association list in insertion order.
\<close>

type_synonym pydict = "(string \<times> pyval) list"

record frozendict =
  fd_items :: pydict
  fd_keys :: "string list"

text \<open>The objects that the comparison methods may be handed and that methods return.\<close>

datatype pyobject =
    X509Wrapper x509_object
  | KeyWrapper wrapper
  | KeyObject key
  | Instance imap
  | FrozenDict frozendict
  | Dict pydict
  | OtherObject pyval

section \<open>ComparableX509\<close>

text \<open>\<^verbatim>\<open>__init__\<close> asserts that the argument is a certificate or a request.\<close>

datatype x509_arg = X509Arg x509_object | OtherArg pyval

definition ComparableX509_init :: "x509_arg \<Rightarrow> error + x509_object" where
  "ComparableX509_init arg =
     (case arg of X509Arg w \<Rightarrow> Inr w | OtherArg _ \<Rightarrow> Inl AssertionError)"

text \<open>\<^verbatim>\<open>_dump(self, filetype=FILETYPE_ASN1)\<close>: the dumping function is chosen by the variant.\<close>

definition dump :: "x509_object \<Rightarrow> filetype \<Rightarrow> bytes" where
  "dump self ft =
     (case self of
        X509 c \<Rightarrow> dump_certificate ft c
      | X509Req r \<Rightarrow> dump_certificate_request ft r)"

text \<open>
  \<^verbatim>\<open>__eq__\<close>: the only test is whether \<^verbatim>\<open>other\<close> is an instance of the wrapper class; then
  the two ASN.1 dumps are compared, each made by the function of its own variant.
\<close>

definition x509_eq :: "x509_object \<Rightarrow> pyobject \<Rightarrow> cmp" where
  "x509_eq self other =
     (case other of
        X509Wrapper w \<Rightarrow> Bool (dump self FILETYPE_ASN1 = dump w FILETYPE_ASN1)
      | _ \<Rightarrow> NotImplemented)"

text \<open>\<^verbatim>\<open>__hash__\<close>: \<^verbatim>\<open>hash((self.__class__, self._dump()))\<close>.\<close>

definition x509_hash :: "(pyval \<Rightarrow> int) \<Rightarrow> x509_object \<Rightarrow> int" where
  "x509_hash H self =
     H (PyTuple [PyClass ''ComparableX509'', PyBytes (dump self FILETYPE_ASN1)])"

section \<open>ComparableKey, ComparableRSAKey, ComparableECKey, ComparableOKPKey\<close>

fun class_name :: "wrapper_class \<Rightarrow> string" where
  "class_name ComparableKey = ''ComparableKey''"
| "class_name ComparableRSAKey = ''ComparableRSAKey''"
| "class_name ComparableECKey = ''ComparableECKey''"
| "class_name ComparableOKPKey = ''ComparableOKPKey''"

text \<open>\<^verbatim>\<open>isinstance(other, self.__class__)\<close>: the three families derive from \<^verbatim>\<open>ComparableKey\<close>.\<close>

definition issubclass :: "wrapper_class \<Rightarrow> wrapper_class \<Rightarrow> bool" where
  "issubclass c d = (c = d \<or> d = ComparableKey)"

text \<open>
  \<^verbatim>\<open>ComparableKey.__eq__\<close>. \<^verbatim>\<open>self.private_numbers()\<close> reaches the wrapped key through
  \<^verbatim>\<open>__getattr__\<close>.
\<close>

definition key_eq :: "wrapper \<Rightarrow> pyobject \<Rightarrow> cmp" where
  "key_eq self other =
     (case other of
        KeyWrapper ow \<Rightarrow>
          if \<not> issubclass (wclass ow) (wclass self)
             \<or> class_of (wrapped self) \<noteq> class_of (wrapped ow)
          then NotImplemented
          else if hasattr (wrapped self) PRIVATE_NUMBERS
          then Bool (private_numbers (wrapped self) = private_numbers (wrapped ow))
          else if hasattr (wrapped self) PUBLIC_NUMBERS
          then Bool (public_numbers (wrapped self) = public_numbers (wrapped ow))
          else NotImplemented
      | _ \<Rightarrow> NotImplemented)"

text \<open>
  \<^verbatim>\<open>ComparableRSAKey.__hash__\<close>. When the wrapped key is neither kind of RSA key the
  method falls off its end and returns \<^verbatim>\<open>None\<close>, which the built-in rejects.
\<close>

definition rsa_hash :: "(pyval \<Rightarrow> int) \<Rightarrow> wrapper \<Rightarrow> error + int" where
  "rsa_hash H self =
     (case wrapped self of
        RSAPrivateKey priv \<Rightarrow>
          (let pub = rsa_public priv in
           Inr (H (PyTuple [PyClass (class_name (wclass self)), PyInt (priv_p priv),
                   PyInt (priv_q priv), PyInt (priv_dmp1 priv), PyInt (priv_dmq1 priv),
                   PyInt (priv_iqmp priv), PyInt (pub_n pub), PyInt (pub_e pub)])))
      | RSAPublicKey pub \<Rightarrow>
          Inr (H (PyTuple [PyClass (class_name (wclass self)), PyInt (pub_n pub),
                  PyInt (pub_e pub)]))
      | _ \<Rightarrow> Inl (TypeError ''__hash__ method should return an integer''))"

text \<open>\<^verbatim>\<open>ComparableECKey.__hash__\<close>.\<close>

definition ec_hash :: "(pyval \<Rightarrow> int) \<Rightarrow> wrapper \<Rightarrow> error + int" where
  "ec_hash H self =
     (case wrapped self of
        EllipticCurvePrivateKey priv \<Rightarrow>
          (let pub = ec_public priv in
           Inr (H (PyTuple [PyClass (class_name (wclass self)),
                   PyStr (curve_name (ec_curve pub)), PyInt (ec_x pub), PyInt (ec_y pub),
                   PyInt (private_value priv)])))
      | EllipticCurvePublicKey pub \<Rightarrow>
          Inr (H (PyTuple [PyClass (class_name (wclass self)),
                  PyStr (curve_name (ec_curve pub)), PyInt (ec_x pub), PyInt (ec_y pub)]))
      | _ \<Rightarrow> Inl (TypeError ''__hash__ method should return an integer''))"

text \<open>
  \<^verbatim>\<open>ComparableOKPKey.__hash__\<close>:
  \<^verbatim>\<open>hash((self.__class__, self._wrapped.curve.name, self._wrapped.x))\<close>. The tuple is built
  left to right, so a missing \<^verbatim>\<open>curve\<close> is reported before a missing \<^verbatim>\<open>x\<close>.
\<close>

definition okp_hash :: "(pyval \<Rightarrow> int) \<Rightarrow> wrapper \<Rightarrow> error + int" where
  "okp_hash H self =
     (case key_curve (wrapped self) of
        Inl err \<Rightarrow> Inl err
      | Inr c \<Rightarrow>
          (case key_x (wrapped self) of
             Inl err \<Rightarrow> Inl err
           | Inr xv \<Rightarrow>
               Inr (H (PyTuple [PyClass (class_name (wclass self)), PyStr (curve_name c), xv]))))"

text \<open>
  \<^verbatim>\<open>hash(wrapper)\<close>: the method of the wrapper's class. In \<^verbatim>\<open>ComparableKey\<close> itself
  \<^verbatim>\<open>__hash__\<close> is bound to \<^verbatim>\<open>NotImplemented\<close>, which is not callable.
\<close>

definition key_hash :: "(pyval \<Rightarrow> int) \<Rightarrow> wrapper \<Rightarrow> error + int" where
  "key_hash H self =
     (case wclass self of
        ComparableKey \<Rightarrow>
          Inl (TypeError (quoted ''NotImplementedType'' @ '' object is not callable''))
      | ComparableRSAKey \<Rightarrow> rsa_hash H self
      | ComparableECKey \<Rightarrow> ec_hash H self
      | ComparableOKPKey \<Rightarrow> okp_hash H self)"

text \<open>\<^verbatim>\<open>ComparableKey.public_key\<close>: \<^verbatim>\<open>self.__class__(self._wrapped.public_key())\<close>.\<close>

definition base_public_key :: "wrapper \<Rightarrow> error + pyobject" where
  "base_public_key self =
     (case public_key (wrapped self) of
        Inl err \<Rightarrow> Inl err
      | Inr k \<Rightarrow> Inr (KeyWrapper \<lparr>wclass = wclass self, wrapped = k\<rparr>))"

text \<open>\<^verbatim>\<open>ComparableECKey.public_key\<close>.\<close>

definition ec_public_key :: "wrapper \<Rightarrow> error + pyobject" where
  "ec_public_key self =
     (case (if hasattr (wrapped self) PUBLIC_KEY
            then public_key (wrapped self)
            else (case public_numbers (wrapped self) of
                    Inl err \<Rightarrow> Inl err
                  | Inr pn \<Rightarrow> numbers_public_key pn)) of
        Inl err \<Rightarrow> Inl err
      | Inr k \<Rightarrow> Inr (KeyWrapper \<lparr>wclass = wclass self, wrapped = k\<rparr>))"

text \<open>
  \<^verbatim>\<open>ComparableOKPKey.public_key\<close>: the derived key is used for its type only, and that
  type is called without arguments: \<^verbatim>\<open>return type(key)()\<close>. What such a call yields is the
  package's business (the parameter \<open>construct\<close>); the method returns it unwrapped.
\<close>

definition okp_public_key :: "(key_class \<Rightarrow> error + key) \<Rightarrow> wrapper \<Rightarrow> error + pyobject" where
  "okp_public_key construct self =
     (case public_key (wrapped self) of
        Inl err \<Rightarrow> Inl err
      | Inr k \<Rightarrow>
          (case construct (class_of k) of
             Inl err \<Rightarrow> Inl err
           | Inr fresh \<Rightarrow> Inr (KeyObject fresh)))"

text \<open>\<^verbatim>\<open>wrapper.public_key()\<close>: the method of the wrapper's class.\<close>

definition wrapper_public_key ::
  "(key_class \<Rightarrow> error + key) \<Rightarrow> wrapper \<Rightarrow> error + pyobject" where
  "wrapper_public_key construct self =
     (case wclass self of
        ComparableECKey \<Rightarrow> ec_public_key self
      | ComparableOKPKey \<Rightarrow> okp_public_key construct self
      | _ \<Rightarrow> base_public_key self)"

text \<open>\<^verbatim>\<open>ComparableOKPKey.is_private\<close>.\<close>

definition is_private :: "wrapper \<Rightarrow> bool" where
  "is_private self = (case wrapped self of OKPPrivateKey _ _ _ \<Rightarrow> True | _ \<Rightarrow> False)"

section \<open>Dictionaries and the Mapping mixins\<close>

text \<open>
  \<^verbatim>\<open>d[k] = v\<close> keeps the place of a key already present and appends a new one, which is
  what \<open>AList.update\<close> does. \<^verbatim>\<open>dict(pairs)\<close> and \<^verbatim>\<open>{**d1, **d2}\<close> store the pairs one by
  one; \<^verbatim>\<open>d1 == d2\<close> holds when both have as many keys and every key of the first has an
  equal value in the second.
\<close>

definition dict_merge :: "pydict \<Rightarrow> (string \<times> pyval) list \<Rightarrow> pydict" where
  "dict_merge d ps = foldl (\<lambda>acc (k, v). AList.update k v acc) d ps"

definition dict_of :: "(string \<times> pyval) list \<Rightarrow> pydict" where
  "dict_of ps = dict_merge [] ps"

definition dict_eq :: "pydict \<Rightarrow> pydict \<Rightarrow> bool" where
  "dict_eq d1 d2 =
     (length d1 = length d2 \<and> list_all (\<lambda>(k, v). map_of d2 k = Some v) d1)"

text \<open>A comprehension over names whose body may raise: the first exception ends it.\<close>

fun collect :: "('a \<Rightarrow> error + 'b) \<Rightarrow> 'a list \<Rightarrow> error + 'b list" where
  "collect f [] = Inr []"
| "collect f (a # as) =
     (case f a of
        Inl err \<Rightarrow> Inl err
      | Inr b \<Rightarrow> (case collect f as of Inl err \<Rightarrow> Inl err | Inr bs \<Rightarrow> Inr (b # bs)))"

text \<open>
  \<^verbatim>\<open>Mapping.items()\<close>, inherited from \<^verbatim>\<open>collections.abc\<close>: the pairs \<^verbatim>\<open>(key, self[key])\<close>
  for the keys \<^verbatim>\<open>__iter__\<close> yields.
\<close>

definition items_via ::
  "(string \<Rightarrow> error + pyval) \<Rightarrow> string list \<Rightarrow> error + (string \<times> pyval) list" where
  "items_via getitem_fn ks =
     (case collect getitem_fn ks of Inl err \<Rightarrow> Inl err | Inr vs \<Rightarrow> Inr (zip ks vs))"

section \<open>ImmutableMap\<close>

text \<open>The names bound in the body of \<^verbatim>\<open>class ImmutableMap\<close>.\<close>

definition ImmutableMap_namespace :: "string list" where
  "ImmutableMap_namespace =
     [''__slots__'', ''__init__'', ''update'', ''__getitem__'', ''__iter__'', ''__len__'',
      ''__hash__'', ''__setattr__'', ''__repr__'']"

text \<open>
  The names an instance finds on the bases \<^verbatim>\<open>Mapping\<close>, \<^verbatim>\<open>Hashable\<close> and \<^verbatim>\<open>object\<close>, as
  CPython 3.11 lists them: the mixin methods of \<^verbatim>\<open>Mapping\<close> and what every object has.
\<close>

definition base_namespace :: "string list" where
  "base_namespace =
     [''__abstractmethods__'', ''__class__'', ''__class_getitem__'', ''__contains__'',
      ''__delattr__'', ''__dir__'', ''__doc__'', ''__eq__'', ''__format__'', ''__ge__'',
      ''__getattribute__'', ''__getstate__'', ''__gt__'', ''__init_subclass__'', ''__le__'',
      ''__lt__'', ''__module__'', ''__ne__'', ''__new__'', ''__reduce__'', ''__reduce_ex__'',
      ''__reversed__'', ''__sizeof__'', ''__str__'', ''__subclasshook__'', ''_abc_impl'',
      ''get'', ''items'', ''keys'', ''values'']"

text \<open>
  A slot is found before anything the class inherits, so a field named like a method
  replaces that method for the instances: with a field \<^verbatim>\<open>items\<close> the call
  \<^verbatim>\<open>self.items()\<close> made by \<^verbatim>\<open>Mapping.__eq__\<close> calls the stored value, with a field
  \<^verbatim>\<open>keys\<close> so does the unpacking \<^verbatim>\<open>{**self}\<close>, and a field named like a special method
  (\<^verbatim>\<open>__getitem__\<close>, \<^verbatim>\<open>__setattr__\<close>, \<^verbatim>\<open>__setitem__\<close>, ...) sets that method. A field
  whose name starts with two underscores and does not end so is stored under a mangled
  name that \<^verbatim>\<open>__init__\<close> does not find, and a field named \<^verbatim>\<open>self\<close> cannot be passed by
  keyword to \<^verbatim>\<open>__init__(self, **kwargs)\<close>. The methods below are modelled as the class
  defines them, that is for a schema without such names, which \<open>plain_schema\<close> says;
  what is proved of the comparison, the update and the assignments of records in general
  assumes it.
\<close>

definition plain_schema :: "rectype \<Rightarrow> bool" where
  "plain_schema T =
     list_all (\<lambda>s. \<not> prefix ''__'' s \<and> s \<noteq> ''self'' \<and> s \<notin> set ImmutableMap_namespace
                  \<and> s \<notin> set base_namespace) (slots T)"

text \<open>
  \<^verbatim>\<open>getattr(self, name)\<close>. A slot is a descriptor on the class: it yields the stored value
  or raises when unset. Any other name is looked up on the class and its bases, where
  methods and class variables live.
\<close>

definition getattr :: "imap \<Rightarrow> string \<Rightarrow> error + pyval" where
  "getattr self name =
     (if name \<in> set (slots (itype self)) then
        (case map_of (attrs self) name of
           None \<Rightarrow> Inl (AttributeError name)
         | Some v \<Rightarrow> Inr v)
      else if name \<in> set ImmutableMap_namespace \<union> set (inherited (itype self)) then
        Inr (PyClassAttr (cname (itype self)) name)
      else Inl (AttributeError name))"

text \<open>\<^verbatim>\<open>object.__setattr__(self, slot, value)\<close>, as \<^verbatim>\<open>__init__\<close> uses it.\<close>

definition object_setattr :: "imap \<Rightarrow> string \<Rightarrow> pyval \<Rightarrow> imap" where
  "object_setattr self slot v = self\<lparr>attrs := AList.update slot v (attrs self)\<rparr>"

text \<open>The loop of \<^verbatim>\<open>__init__\<close>: \<^verbatim>\<open>kwargs.pop(slot)\<close> raises when the key is gone.\<close>

fun init_slots :: "string list \<Rightarrow> pydict \<Rightarrow> imap \<Rightarrow> error + imap" where
  "init_slots [] kwargs self = Inr self"
| "init_slots (slot # rest) kwargs self =
     (case map_of kwargs slot of
        None \<Rightarrow> Inl (KeyError slot)
      | Some v \<Rightarrow> init_slots rest (AList.delete slot kwargs) (object_setattr self slot v))"

definition init_message :: "rectype \<Rightarrow> pydict \<Rightarrow> string" where
  "init_message T kwargs =
     ''__init__() takes exactly the following arguments: '' @ join '', '' (slots T)
     @ '' ('' @ (if kwargs \<noteq> [] then join '', '' (map fst kwargs) else ''none'')
     @ '' given)''"

definition ImmutableMap_init :: "rectype \<Rightarrow> pydict \<Rightarrow> error + imap" where
  "ImmutableMap_init T kwargs =
     (if set (map fst kwargs) \<noteq> set (slots T) then Inl (TypeError (init_message T kwargs))
      else init_slots (slots T) kwargs \<lparr>itype = T, attrs = []\<rparr>)"

text \<open>\<^verbatim>\<open>__getitem__\<close>: \<^verbatim>\<open>getattr\<close>, with \<^verbatim>\<open>AttributeError\<close> turned into \<^verbatim>\<open>KeyError\<close>.\<close>

definition getitem :: "imap \<Rightarrow> string \<Rightarrow> error + pyval" where
  "getitem self key =
     (case getattr self key of
        Inl (AttributeError _) \<Rightarrow> Inl (KeyError key)
      | Inl err \<Rightarrow> Inl err
      | Inr v \<Rightarrow> Inr v)"

definition ImmutableMap_iter :: "imap \<Rightarrow> string list" where
  "ImmutableMap_iter self = slots (itype self)"

definition ImmutableMap_len :: "imap \<Rightarrow> nat" where
  "ImmutableMap_len self = length (slots (itype self))"

text \<open>\<^verbatim>\<open>__hash__\<close>: \<^verbatim>\<open>hash(tuple(getattr(self, slot) for slot in self.__slots__))\<close>.\<close>

definition ImmutableMap_hash :: "(pyval \<Rightarrow> int) \<Rightarrow> imap \<Rightarrow> error + int" where
  "ImmutableMap_hash H self =
     (case collect (getattr self) (slots (itype self)) of
        Inl err \<Rightarrow> Inl err
      | Inr vs \<Rightarrow> Inr (H (PyTuple vs)))"

section \<open>frozendict\<close>

text \<open>
  The positional arguments of \<^verbatim>\<open>frozendict(*args, **kwargs)\<close>: a mapping, given by its
  bindings, or something that is not a \<^verbatim>\<open>Mapping\<close>.
\<close>

datatype pyarg = MappingArg pydict | ValueArg pyval

definition frozendict_make :: "pydict \<Rightarrow> frozendict" where
  "frozendict_make its = \<lparr>fd_items = its, fd_keys = sort (map fst its)\<rparr>"

definition frozendict_init :: "pyarg list \<Rightarrow> pydict \<Rightarrow> error + frozendict" where
  "frozendict_init args kwargs =
     (if kwargs \<noteq> [] \<and> args = [] then Inr (frozendict_make kwargs)
      else (case args of
              [MappingArg m] \<Rightarrow> Inr (frozendict_make m)
            | _ \<Rightarrow> Inl (TypeError [])))"

definition frozendict_getitem :: "frozendict \<Rightarrow> string \<Rightarrow> error + pyval" where
  "frozendict_getitem self key =
     (case map_of (fd_items self) key of None \<Rightarrow> Inl (KeyError key) | Some v \<Rightarrow> Inr v)"

definition frozendict_iter :: "frozendict \<Rightarrow> string list" where
  "frozendict_iter self = fd_keys self"

definition frozendict_len :: "frozendict \<Rightarrow> nat" where
  "frozendict_len self = length (fd_items self)"

text \<open>\<^verbatim>\<open>_sorted_items\<close>: \<^verbatim>\<open>tuple((key, self[key]) for key in self._keys)\<close>.\<close>

definition sorted_items :: "frozendict \<Rightarrow> error + (string \<times> pyval) list" where
  "sorted_items self = items_via (frozendict_getitem self) (fd_keys self)"

definition frozendict_hash :: "(pyval \<Rightarrow> int) \<Rightarrow> frozendict \<Rightarrow> error + int" where
  "frozendict_hash H self =
     (case sorted_items self of
        Inl err \<Rightarrow> Inl err
      | Inr its \<Rightarrow> Inr (H (PyTuple (map (\<lambda>(k, v). PyTuple [PyStr k, v]) its))))"

text \<open>\<^verbatim>\<open>__repr__\<close>; \<open>R\<close> is the built-in \<^verbatim>\<open>repr\<close> on values.\<close>

definition frozendict_repr :: "(pyval \<Rightarrow> string) \<Rightarrow> frozendict \<Rightarrow> error + string" where
  "frozendict_repr R self =
     (case sorted_items self of
        Inl err \<Rightarrow> Inl err
      | Inr its \<Rightarrow>
          Inr (''frozendict('' @ join '', '' (map (\<lambda>(k, v). k @ ''='' @ R v) its) @ '')''))"

section \<open>Equality of mappings\<close>

text \<open>
  Neither \<^verbatim>\<open>ImmutableMap\<close> nor \<^verbatim>\<open>frozendict\<close> defines \<^verbatim>\<open>__eq__\<close>: both inherit it from
  \<^verbatim>\<open>collections.abc.Mapping\<close>, which answers \<^verbatim>\<open>NotImplemented\<close> unless \<^verbatim>\<open>other\<close> is a
  \<^verbatim>\<open>Mapping\<close> and otherwise compares \<^verbatim>\<open>dict(self.items())\<close> with \<^verbatim>\<open>dict(other.items())\<close>.
  \<^verbatim>\<open>items\<close> is looked up on the object: for a frozendict and for a record with a plain
  schema that is the mixin of \<^verbatim>\<open>Mapping\<close>, which pairs each key of \<^verbatim>\<open>__iter__\<close> with
  \<^verbatim>\<open>self[key]\<close>.
\<close>

definition Mapping_items :: "pyobject \<Rightarrow> (error + (string \<times> pyval) list) option" where
  "Mapping_items obj =
     (case obj of
        Instance self \<Rightarrow> Some (items_via (getitem self) (ImmutableMap_iter self))
      | FrozenDict self \<Rightarrow> Some (items_via (frozendict_getitem self) (frozendict_iter self))
      | Dict d \<Rightarrow> Some (Inr d)
      | _ \<Rightarrow> None)"

definition Mapping_eq :: "pyobject \<Rightarrow> pyobject \<Rightarrow> error + cmp" where
  "Mapping_eq self other =
     (case Mapping_items other of
        None \<Rightarrow> Inr NotImplemented
      | Some other_items \<Rightarrow>
          (case Mapping_items self of
             None \<Rightarrow> Inr NotImplemented
           | Some (Inl err) \<Rightarrow> Inl err
           | Some (Inr xs) \<Rightarrow>
               (case other_items of
                  Inl err \<Rightarrow> Inl err
                | Inr ys \<Rightarrow> Inr (Bool (dict_eq (dict_of xs) (dict_of ys))))))"

section \<open>Objects in the store: construction, update, assignment\<close>

text \<open>
  Objects live in a store and are named by references. A constructor call allocates a new
  object behind every existing one; \<^verbatim>\<open>__init__\<close> fills it before anyone else holds the
  reference, so the store receives the finished object. Each operation returns its result,
  or the exception raised, together with the store it leaves.
\<close>

type_synonym heap = "pyobject list"
type_synonym ref = nat

definition ImmutableMap_new :: "rectype \<Rightarrow> pydict \<Rightarrow> heap \<Rightarrow> (error + ref) \<times> heap" where
  "ImmutableMap_new T kwargs h =
     (case ImmutableMap_init T kwargs of
        Inl err \<Rightarrow> (Inl err, h)
      | Inr obj \<Rightarrow> (Inr (length h), h @ [Instance obj]))"

definition frozendict_new :: "pyarg list \<Rightarrow> pydict \<Rightarrow> heap \<Rightarrow> (error + ref) \<times> heap" where
  "frozendict_new args kwargs h =
     (case frozendict_init args kwargs of
        Inl err \<Rightarrow> (Inl err, h)
      | Inr obj \<Rightarrow> (Inr (length h), h @ [FrozenDict obj]))"

definition deref :: "heap \<Rightarrow> ref \<Rightarrow> pyobject option" where
  "deref h r = (if r < length h then Some (h ! r) else None)"

text \<open>
  \<^verbatim>\<open>ImmutableMap.update\<close>: \<^verbatim>\<open>items = {**self, **kwargs}\<close>, then \<^verbatim>\<open>type(self)(**items)\<close>.
  The unpacking calls \<^verbatim>\<open>self.keys()\<close>, for a record with a plain schema the mixin of
  \<^verbatim>\<open>Mapping\<close> over \<^verbatim>\<open>__iter__\<close>, and reads \<^verbatim>\<open>self[key]\<close> for each key. Unpacking a
  receiver that is no mapping is a \<^verbatim>\<open>TypeError\<close>.
\<close>

definition update :: "ref \<Rightarrow> pydict \<Rightarrow> heap \<Rightarrow> (error + ref) \<times> heap" where
  "update self kwargs h =
     (case deref h self of
        Some (Instance obj) \<Rightarrow>
          (case items_via (getitem obj) (ImmutableMap_iter obj) of
             Inl err \<Rightarrow> (Inl err, h)
           | Inr its \<Rightarrow> ImmutableMap_new (itype obj) (dict_merge (dict_of its) kwargs) h)
      | _ \<Rightarrow> (Inl (TypeError ''object is not a mapping''), h))"

text \<open>
  \<^verbatim>\<open>__setattr__\<close> of both classes ignores its arguments and raises
  \<^verbatim>\<open>AttributeError("can't set attribute")\<close>.
\<close>

definition ImmutableMap_setattr ::
  "ref \<Rightarrow> string \<Rightarrow> pyval \<Rightarrow> heap \<Rightarrow> (error + unit) \<times> heap" where
  "ImmutableMap_setattr self name v h = (Inl (AttributeError ''can't set attribute''), h)"

definition frozendict_setattr ::
  "ref \<Rightarrow> string \<Rightarrow> pyval \<Rightarrow> heap \<Rightarrow> (error + unit) \<times> heap" where
  "frozendict_setattr self name v h = (Inl (AttributeError ''can't set attribute''), h)"

text \<open>
  The statement \<^verbatim>\<open>obj[key] = value\<close>. Neither class defines \<^verbatim>\<open>__setitem__\<close> and
  \<^verbatim>\<open>Mapping\<close> has none, so for a record (with a plain schema) and for a frozendict the
  runtime rejects the statement itself, with a \<^verbatim>\<open>TypeError\<close> that names the type of the
  object.
\<close>

definition no_item_assignment :: "string \<Rightarrow> error" where
  "no_item_assignment type_name =
     TypeError (quoted type_name @ '' object does not support item assignment'')"

definition ImmutableMap_setitem ::
  "imap \<Rightarrow> string \<Rightarrow> pyval \<Rightarrow> heap \<Rightarrow> (error + unit) \<times> heap" where
  "ImmutableMap_setitem self key v h = (Inl (no_item_assignment (cname (itype self))), h)"

definition frozendict_setitem ::
  "frozendict \<Rightarrow> string \<Rightarrow> pyval \<Rightarrow> heap \<Rightarrow> (error + unit) \<times> heap" where
  "frozendict_setitem self key v h = (Inl (no_item_assignment ''frozendict''), h)"

section \<open>Example objects\<close>

text \<open>A record type with schema \<^verbatim>\<open>{typ, alg}\<close>, and a second one with the same schema.\<close>

definition Header :: rectype where
  "Header = \<lparr>cname = ''Header'', slots = [''typ'', ''alg''], inherited = base_namespace\<rparr>"

definition Protected :: rectype where
  "Protected =
     \<lparr>cname = ''Protected'', slots = [''typ'', ''alg''], inherited = base_namespace\<rparr>"

definition jwt_kwargs :: pydict where
  "jwt_kwargs = [(''typ'', PyStr ''JWT''), (''alg'', PyStr ''RS256'')]"

definition jwt_header :: imap where
  "jwt_header = \<lparr>itype = Header, attrs = jwt_kwargs\<rparr>"

text \<open>Two record types that declare the same two fields in opposite orders.\<close>

definition Point :: rectype where
  "Point = \<lparr>cname = ''Point'', slots = [''x'', ''y''], inherited = base_namespace\<rparr>"

definition Tniop :: rectype where
  "Tniop = \<lparr>cname = ''Tniop'', slots = [''y'', ''x''], inherited = base_namespace\<rparr>"

definition point_kwargs :: pydict where
  "point_kwargs = [(''x'', PyInt 1), (''y'', PyInt 2)]"

text \<open>A certificate and a certificate request with different encodings.\<close>

definition example_cert :: x509_object where
  "example_cert = X509 (\<lambda>ft. [0x30, 0x82, 0x03, 0x01])"

definition example_req :: x509_object where
  "example_req = X509Req (\<lambda>ft. [0x30, 0x82, 0x02, 0x02])"

text \<open>An Ed25519 private key, wrapped.\<close>

definition ed25519_wrapper :: wrapper where
  "ed25519_wrapper =
     \<lparr>wclass = ComparableOKPKey, wrapped = OKPPrivateKey Ed25519 [0x9d, 0x61] [0xd7, 0x5a]\<rparr>"

definition hs_kwargs :: pydict where
  "hs_kwargs = [(''typ'', PyStr ''JWT''), (''alg'', PyStr ''HS256'')]"

definition hs_header :: imap where
  "hs_header = \<lparr>itype = Header, attrs = hs_kwargs\<rparr>"

definition protected_header :: imap where
  "protected_header = \<lparr>itype = Protected, attrs = jwt_kwargs\<rparr>"

definition point :: imap where
  "point = \<lparr>itype = Point, attrs = point_kwargs\<rparr>"

definition tniop :: imap where
  "tniop = \<lparr>itype = Tniop, attrs = [(''y'', PyInt 2), (''x'', PyInt 1)]\<rparr>"

text \<open>The bindings \<^verbatim>\<open>a=1, b=2\<close> and the mapping \<^verbatim>\<open>{"b": 2, "a": 1}\<close>.\<close>

definition ab_kwargs :: pydict where
  "ab_kwargs = [(''a'', PyInt 1), (''b'', PyInt 2)]"

definition ba_mapping :: pydict where
  "ba_mapping = [(''b'', PyInt 2), (''a'', PyInt 1)]"

text \<open>
  The built-in \<^verbatim>\<open>repr\<close> on integers (decimal digits) and on plain strings (quoted), to
  print the examples.
\<close>

fun digits :: "nat \<Rightarrow> string" where
  "digits n =
     (if n < 10 then [''0123456789'' ! n]
      else digits (n div 10) @ [''0123456789'' ! (n mod 10)])"

definition example_repr :: "pyval \<Rightarrow> string" where
  "example_repr v =
     (case v of
        PyInt i \<Rightarrow> (if i < 0 then ''-'' @ digits (nat (- i)) else digits (nat i))
      | PyStr s \<Rightarrow> [CHR 0x27] @ s @ [CHR 0x27]
      | _ \<Rightarrow> ''<object>'')"

text \<open>A store with the record of the example and the frozen mapping \<^verbatim>\<open>a=1, b=2\<close>.\<close>

definition example_heap :: heap where
  "example_heap = [Instance jwt_header, FrozenDict (frozendict_make ab_kwargs)]"

section \<open>Certificate and request wrappers\<close>

text \<open>
  Claim C3, as first stated: a certificate wrapper compared with a request wrapper yields
  "not comparable". It does not: the comparison goes ahead on the two encodings and
  answers false.
\<close>

theorem x509_eq_cross_variant_counterexample:
  "x509_eq example_cert (X509Wrapper example_req) = Bool False"
  by (simp add: x509_eq_def dump_def example_cert_def example_req_def
      dump_certificate_def dump_certificate_request_def)

text \<open>
  Claim C3, amended: the comparison is "not comparable" exactly when the other object is
  not a certificate/request wrapper. Between two wrappers it is a truth value, true iff
  the canonical encodings match byte for byte, each encoding made by the dump function of
  its own variant; the variants themselves are not compared, so a certificate against a
  request is decided by the bytes too.
\<close>

theorem x509_eq_compares_encodings:
  "x509_eq a (X509Wrapper b) = Bool (dump a FILETYPE_ASN1 = dump b FILETYPE_ASN1)
   \<and> x509_eq (X509 c) (X509Wrapper (X509 c')) = Bool (c FILETYPE_ASN1 = c' FILETYPE_ASN1)
   \<and> x509_eq (X509Req r) (X509Wrapper (X509Req r')) = Bool (r FILETYPE_ASN1 = r' FILETYPE_ASN1)
   \<and> x509_eq (X509 c) (X509Wrapper (X509Req r)) = Bool (c FILETYPE_ASN1 = r FILETYPE_ASN1)
   \<and> x509_eq (X509Req r) (X509Wrapper (X509 c)) = Bool (r FILETYPE_ASN1 = c FILETYPE_ASN1)
   \<and> x509_eq a (KeyWrapper w) = NotImplemented
   \<and> x509_eq a (KeyObject k) = NotImplemented
   \<and> x509_eq a (Instance i) = NotImplemented
   \<and> x509_eq a (FrozenDict f) = NotImplemented
   \<and> x509_eq a (Dict d) = NotImplemented
   \<and> x509_eq a (OtherObject v) = NotImplemented"
  by (simp add: x509_eq_def dump_def dump_certificate_def dump_certificate_request_def)

section \<open>Construction of a frozendict\<close>

lemma frozendict_init_kwargs:
  "kwargs \<noteq> [] \<Longrightarrow> frozendict_init [] kwargs = Inr (frozendict_make kwargs)"
  by (simp add: frozendict_init_def)

lemma frozendict_init_mapping:
  "frozendict_init [MappingArg m] [] = Inr (frozendict_make m)"
  by (simp add: frozendict_init_def)

lemma frozendict_init_neither: "frozendict_init [] [] = Inl (TypeError [])"
  by (simp add: frozendict_init_def)

text \<open>
  Claim C4: construction from a mapping argument together with named bindings fails with
  a type error. At the mixture \<^verbatim>\<open>frozendict({'a': 1}, b=2)\<close> the code does otherwise:
  construction succeeds, keeps the mapping and drops the named binding.
\<close>

theorem frozendict_init_mixture_accepted:
  "frozendict_init [MappingArg [(''a'', PyInt 1)]] [(''b'', PyInt 2)]
     = Inr \<lparr>fd_items = [(''a'', PyInt 1)], fd_keys = [''a'']\<rparr>"
  by (simp add: frozendict_init_def frozendict_make_def)

section \<open>Key wrappers\<close>

text \<open>
  Claim C5: the hash of every wrapped OKP key succeeds and is the hash of the tuple
  (class, curve name, x-coordinate). At a wrapped Ed25519 private key the code does
  otherwise: no hash is computed, the attribute \<^verbatim>\<open>curve\<close> that \<^verbatim>\<open>__hash__\<close> reads is
  missing.
\<close>

theorem okp_hash_raises:
  "key_hash H ed25519_wrapper = Inl (AttributeError ''curve'')"
  by (simp add: key_hash_def okp_hash_def ed25519_wrapper_def)

lemma okp_hash_never_succeeds: "okp_hash H w \<noteq> Inr n"
  by (simp add: okp_hash_def split: sum.splits)

text \<open>The RSA and elliptic-curve wrappers return a wrapper of their class around the public key.\<close>

lemma rsa_public_key_wrapped:
  "wrapper_public_key construct \<lparr>wclass = ComparableRSAKey, wrapped = RSAPrivateKey pn\<rparr>
     = Inr (KeyWrapper \<lparr>wclass = ComparableRSAKey, wrapped = RSAPublicKey (rsa_public pn)\<rparr>)"
  by (simp add: wrapper_public_key_def base_public_key_def)

lemma ec_public_key_wrapped:
  "wrapper_public_key construct
       \<lparr>wclass = ComparableECKey, wrapped = EllipticCurvePrivateKey pn\<rparr>
     = Inr (KeyWrapper
         \<lparr>wclass = ComparableECKey, wrapped = EllipticCurvePublicKey (ec_public pn)\<rparr>)"
  by (simp add: wrapper_public_key_def ec_public_key_def)

text \<open>
  Claim C6: \<^verbatim>\<open>public_key()\<close> of a wrapped private key returns a wrapper of the same
  family around the derived public key. At a wrapped Ed25519 private key the code does
  otherwise: the derived public key is used for its type alone; the result is whatever
  calling that type without arguments gives, unwrapped, or the exception of that call.
\<close>

theorem okp_public_key_unwrapped:
  "wrapper_public_key construct ed25519_wrapper
     = (case construct (OKPPublicKey_class Ed25519) of
          Inl err \<Rightarrow> Inl err
        | Inr fresh \<Rightarrow> Inr (KeyObject fresh))"
  by (simp add: wrapper_public_key_def okp_public_key_def ed25519_wrapper_def)

lemma okp_public_key_never_wrapper:
  "wrapper_public_key construct \<lparr>wclass = ComparableOKPKey, wrapped = k\<rparr> \<noteq> Inr (KeyWrapper w)"
  by (simp add: wrapper_public_key_def okp_public_key_def split: sum.splits)

section \<open>Assignment\<close>

text \<open>
  Claim C7, as first stated: the error of an assignment identifies the field. It does
  not: assigning to \<^verbatim>\<open>alg\<close> of a constructed record raises the fixed message, in which
  \<^verbatim>\<open>alg\<close> does not occur, and assigning to \<^verbatim>\<open>typ\<close> raises the very same error.
\<close>

theorem setattr_message_counterexample:
  "ImmutableMap_setattr 0 ''alg'' (PyStr ''HS256'') [Instance jwt_header]
     = (Inl (AttributeError ''can't set attribute''), [Instance jwt_header])
   \<and> \<not> sublist ''alg'' ''can't set attribute''
   \<and> ImmutableMap_setattr 0 ''typ'' (PyStr ''HS256'') [Instance jwt_header]
     = ImmutableMap_setattr 0 ''alg'' (PyStr ''HS256'') [Instance jwt_header]"
  by (simp add: ImmutableMap_setattr_def sublist_Cons_right)

text \<open>
  Claim C7, amended: every attempted assignment fails and leaves the store, hence the
  object, as it was. Assignment to an attribute, of a record or of a frozen mapping, fails
  with the attribute error whose message is the fixed text \<^verbatim>\<open>can't set attribute\<close>;
  assignment to a key, of a record or of a frozen mapping, fails with the type error
  whose message names the type of the object and says that it does not support item
  assignment. Neither message depends on the field or key. (For a record: of a type with
  a plain schema.)
\<close>

theorem assignment_fails_unchanged:
  "(deref h r = Some (Instance obj) \<and> plain_schema (itype obj) \<longrightarrow>
      ImmutableMap_setattr r name v h = (Inl (AttributeError ''can't set attribute''), h)
      \<and> ImmutableMap_setitem obj key v h
          = (Inl (TypeError (quoted (cname (itype obj))
                             @ '' object does not support item assignment'')), h)
      \<and> deref (snd (ImmutableMap_setattr r name v h)) r = Some (Instance obj)
      \<and> deref (snd (ImmutableMap_setitem obj key v h)) r = Some (Instance obj))
   \<and> (deref h r' = Some (FrozenDict f) \<longrightarrow>
      frozendict_setattr r' name v h = (Inl (AttributeError ''can't set attribute''), h)
      \<and> frozendict_setitem f key v h
          = (Inl (TypeError (quoted ''frozendict''
                             @ '' object does not support item assignment'')), h)
      \<and> deref (snd (frozendict_setattr r' name v h)) r' = Some (FrozenDict f)
      \<and> deref (snd (frozendict_setitem f key v h)) r' = Some (FrozenDict f))"
  by (simp add: ImmutableMap_setattr_def frozendict_setattr_def ImmutableMap_setitem_def
      frozendict_setitem_def no_item_assignment_def)

theorem assignment_fails_unchanged_witness:
  "deref example_heap 0 = Some (Instance jwt_header)
   \<and> plain_schema (itype jwt_header)
   \<and> deref example_heap 1 = Some (FrozenDict (frozendict_make ab_kwargs))
   \<and> ImmutableMap_setattr 0 ''alg'' (PyStr ''HS256'') example_heap
       = (Inl (AttributeError ''can't set attribute''), example_heap)
   \<and> ImmutableMap_setitem jwt_header ''alg'' (PyStr ''HS256'') example_heap
       = (Inl (TypeError (quoted ''Header'' @ '' object does not support item assignment'')),
          example_heap)
   \<and> frozendict_setattr 1 ''a'' (PyInt 5) example_heap
       = (Inl (AttributeError ''can't set attribute''), example_heap)
   \<and> frozendict_setitem (frozendict_make ab_kwargs) ''a'' (PyInt 5) example_heap
       = (Inl (TypeError (quoted ''frozendict''
                          @ '' object does not support item assignment'')), example_heap)"
proof -
  have rec: "deref example_heap 0 = Some (Instance jwt_header)"
    by (simp add: deref_def example_heap_def)
  have plain: "plain_schema (itype jwt_header)"
    by (simp add: plain_schema_def jwt_header_def Header_def ImmutableMap_namespace_def
        base_namespace_def)
  have fd: "deref example_heap 1 = Some (FrozenDict (frozendict_make ab_kwargs))"
    by (simp add: deref_def example_heap_def)
  have name: "cname (itype jwt_header) = ''Header''"
    by (simp add: jwt_header_def Header_def)
  from assignment_fails_unchanged [where h = example_heap and r = 0 and obj = jwt_header
      and name = "''alg''" and v = "PyStr ''HS256''" and key = "''alg''" and r' = 1
      and f = "frozendict_make ab_kwargs"] rec plain
  have a: "ImmutableMap_setattr 0 ''alg'' (PyStr ''HS256'') example_heap
       = (Inl (AttributeError ''can't set attribute''), example_heap)"
    and b: "ImmutableMap_setitem jwt_header ''alg'' (PyStr ''HS256'') example_heap
       = (Inl (TypeError (quoted ''Header'' @ '' object does not support item assignment'')),
          example_heap)"
    by (simp_all add: name)
  from assignment_fails_unchanged [where h = example_heap and r = 0 and obj = jwt_header
      and name = "''a''" and v = "PyInt 5" and key = "''a''" and r' = 1
      and f = "frozendict_make ab_kwargs"] fd
  have c: "frozendict_setattr 1 ''a'' (PyInt 5) example_heap
       = (Inl (AttributeError ''can't set attribute''), example_heap)"
    and d: "frozendict_setitem (frozendict_make ab_kwargs) ''a'' (PyInt 5) example_heap
       = (Inl (TypeError (quoted ''frozendict''
                          @ '' object does not support item assignment'')), example_heap)"
    by simp_all
  show ?thesis using rec plain fd a b c d by simp
qed

section \<open>Item lookup on a record\<close>

lemma jwt_header_constructed: "ImmutableMap_init Header jwt_kwargs = Inr jwt_header"
  by (simp add: ImmutableMap_init_def Header_def jwt_kwargs_def jwt_header_def
      object_setattr_def)

text \<open>
  Claim C10: item lookup by a name outside the schema fails with a not-found error. At
  \<^verbatim>\<open>Header(typ='JWT', alg='RS256')['update']\<close> the code does otherwise: \<^verbatim>\<open>update\<close> is no
  field of the schema, yet the lookup succeeds and returns the method found on the class.
\<close>

theorem getitem_resolves_method:
  "ImmutableMap_init Header jwt_kwargs = Inr jwt_header
   \<and> ''update'' \<notin> set (slots Header)
   \<and> getitem jwt_header ''update'' = Inr (PyClassAttr ''Header'' ''update'')"
  by (simp add: ImmutableMap_init_def Header_def jwt_kwargs_def jwt_header_def
      object_setattr_def getitem_def getattr_def ImmutableMap_namespace_def)

section \<open>Association lists as dictionaries\<close>

lemma update_absent: "k \<notin> fst ` set al \<Longrightarrow> AList.update k v al = al @ [(k, v)]"
  by (induction al) auto

lemma dict_merge_distinct:
  "distinct (map fst (d @ ps)) \<Longrightarrow> dict_merge d ps = d @ ps"
proof (induction ps arbitrary: d)
  case Nil
  then show ?case by (simp add: dict_merge_def)
next
  case (Cons p ps)
  obtain k v where p: "p = (k, v)" by (cases p)
  from Cons.prems p have absent: "k \<notin> fst ` set d" by auto
  from Cons.prems p have "distinct (map fst ((d @ [(k, v)]) @ ps))" by auto
  then have "dict_merge (d @ [(k, v)]) ps = (d @ [(k, v)]) @ ps" by (rule Cons.IH)
  then show ?case using absent p by (simp add: dict_merge_def update_absent)
qed

lemma dict_of_distinct: "distinct (map fst ps) \<Longrightarrow> dict_of ps = ps"
  using dict_merge_distinct [of "[]" ps] by (simp add: dict_of_def)

lemma dict_eq_iff_set:
  assumes "distinct (map fst d1)" and "distinct (map fst d2)"
  shows "dict_eq d1 d2 \<longleftrightarrow> set d1 = set d2"
proof
  assume eq: "dict_eq d1 d2"
  then have len: "length d1 = length d2"
    and all: "\<And>k v. (k, v) \<in> set d1 \<Longrightarrow> map_of d2 k = Some v"
    by (auto simp: dict_eq_def list_all_iff)
  have sub: "set d1 \<subseteq> set d2"
    using all assms(2) by (auto dest: map_of_SomeD)
  have "distinct d1" "distinct d2"
    using assms by (simp_all add: distinct_map)
  then have "card (set d1) = card (set d2)"
    using len by (simp add: distinct_card)
  then show "set d1 = set d2"
    using sub by (simp add: card_subset_eq)
next
  assume eq: "set d1 = set d2"
  have "distinct d1" "distinct d2"
    using assms by (simp_all add: distinct_map)
  then have "length d1 = length d2"
    using eq by (metis distinct_card)
  moreover have "list_all (\<lambda>(k, v). map_of d2 k = Some v) d1"
    using eq assms(2) by (auto simp: list_all_iff)
  ultimately show "dict_eq d1 d2" by (simp add: dict_eq_def)
qed

lemma collect_Inr:
  "(\<And>a. a \<in> set as \<Longrightarrow> f a = Inr (g a)) \<Longrightarrow> collect f as = Inr (map g as)"
  by (induction as) auto

lemma collect_cong:
  "(\<And>a. a \<in> set as \<Longrightarrow> f a = f' a) \<Longrightarrow> collect f as = collect f' as"
  by (induction as) (auto split: sum.splits)

lemma zip_map_graph: "zip ks (map g ks) = map (\<lambda>k. (k, g k)) ks"
  by (induction ks) auto

lemma items_via_Inr:
  "(\<And>k. k \<in> set ks \<Longrightarrow> f k = Inr (g k)) \<Longrightarrow> items_via f ks = Inr (map (\<lambda>k. (k, g k)) ks)"
  by (simp add: items_via_def collect_Inr zip_map_graph)

lemma map_of_graph: "k \<in> set ks \<Longrightarrow> map_of (map (\<lambda>k. (k, g k)) ks) k = Some (g k)"
  by (induction ks) auto

lemma set_graph_eq_iff:
  "set (map (\<lambda>k. (k, g k)) ks) = set (map (\<lambda>k. (k, g' k)) ks')
     \<longleftrightarrow> set ks = set ks' \<and> (\<forall>k \<in> set ks. g k = g' k)"
  by (auto simp: set_eq_iff image_iff) 

section \<open>Construction of a record\<close>

lemma init_slots_dom:
  "init_slots ss kw self = Inr r \<Longrightarrow> set ss \<subseteq> dom (map_of kw) \<and> distinct ss"
proof (induction ss arbitrary: kw self)
  case Nil
  then show ?case by simp
next
  case (Cons s ss)
  from Cons.prems obtain v where v: "map_of kw s = Some v"
    and rest: "init_slots ss (AList.delete s kw) (object_setattr self s v) = Inr r"
    by (auto split: option.splits)
  from Cons.IH [OF rest]
  have "set ss \<subseteq> dom (map_of (AList.delete s kw))" and "distinct ss" by auto
  then show ?case using v by (auto simp: delete_conv' split: if_splits)
qed

lemma init_slots_attrs:
  "init_slots ss kw self = Inr r \<Longrightarrow> set ss \<inter> fst ` set (attrs self) = {} \<Longrightarrow>
     itype r = itype self
     \<and> attrs r = attrs self @ map (\<lambda>s. (s, the (map_of kw s))) ss"
proof (induction ss arbitrary: kw self)
  case Nil
  then show ?case by simp
next
  case (Cons s ss)
  from Cons.prems(1) obtain v where v: "map_of kw s = Some v"
    and rest: "init_slots ss (AList.delete s kw) (object_setattr self s v) = Inr r"
    by (auto split: option.splits)
  from init_slots_dom [OF rest] have notin: "s \<notin> set ss"
    by (auto simp: delete_conv')
  from Cons.prems(2) have absent: "s \<notin> fst ` set (attrs self)" by auto
  then have stored: "attrs (object_setattr self s v) = attrs self @ [(s, v)]"
    by (simp add: object_setattr_def update_absent)
  have disj: "set ss \<inter> fst ` set (attrs (object_setattr self s v)) = {}"
    using Cons.prems(2) notin stored by auto
  have same: "map (\<lambda>t. (t, the (map_of (AList.delete s kw) t))) ss
                = map (\<lambda>t. (t, the (map_of kw t))) ss"
    using notin by (intro map_cong refl) (auto simp: delete_conv')
  from Cons.IH [OF rest disj] show ?case
    using stored same v by (simp add: object_setattr_def)
qed

lemma init_slots_total:
  "distinct ss \<Longrightarrow> set ss \<subseteq> dom (map_of kw) \<Longrightarrow> \<exists>r. init_slots ss kw self = Inr r"
proof (induction ss arbitrary: kw self)
  case Nil
  then show ?case by simp
next
  case (Cons s ss)
  from Cons.prems obtain v where v: "map_of kw s = Some v" by auto
  have "set ss \<subseteq> dom (map_of (AList.delete s kw))"
    using Cons.prems by (auto simp: delete_conv')
  with Cons.IH [of "AList.delete s kw" "object_setattr self s v"] Cons.prems v
  show ?case by auto
qed

text \<open>
  What a successful \<^verbatim>\<open>__init__\<close> leaves: the slots are pairwise different, the keyword
  names are the slots, and the object stores, in slot order, the value given for each.
\<close>

lemma ImmutableMap_init_Inr:
  assumes "ImmutableMap_init T kw = Inr a"
  shows "itype a = T" and "distinct (slots T)" and "set (map fst kw) = set (slots T)"
    and "attrs a = map (\<lambda>s. (s, the (map_of kw s))) (slots T)"
proof -
  from assms have keys: "set (map fst kw) = set (slots T)"
    and run: "init_slots (slots T) kw \<lparr>itype = T, attrs = []\<rparr> = Inr a"
    by (auto simp: ImmutableMap_init_def split: if_splits)
  show "set (map fst kw) = set (slots T)" by (rule keys)
  show "distinct (slots T)" using init_slots_dom [OF run] by simp
  from init_slots_attrs [OF run]
  show "itype a = T" and "attrs a = map (\<lambda>s. (s, the (map_of kw s))) (slots T)"
    by simp_all
qed

lemma ImmutableMap_init_total:
  assumes "distinct (slots T)" and "set (map fst kw) = set (slots T)"
  shows "\<exists>a. ImmutableMap_init T kw = Inr a"
proof -
  have "set (slots T) \<subseteq> dom (map_of kw)"
    using assms(2) by (auto simp: dom_map_of_conv_image_fst)
  from init_slots_total [OF assms(1) this] show ?thesis
    using assms(2) by (simp add: ImmutableMap_init_def)
qed

lemma getattr_constructed:
  assumes "ImmutableMap_init T kw = Inr a" and "s \<in> set (slots T)"
  shows "getattr a s = Inr (the (map_of kw s))"
  using assms(2) ImmutableMap_init_Inr(1,4) [OF assms(1)]
  by (simp add: getattr_def map_of_graph)

lemma getitem_constructed:
  assumes "ImmutableMap_init T kw = Inr a" and "s \<in> set (slots T)"
  shows "getitem a s = Inr (the (map_of kw s))"
  using getattr_constructed [OF assms] by (simp add: getitem_def)

lemma items_constructed:
  assumes "ImmutableMap_init T kw = Inr a"
  shows "items_via (getitem a) (ImmutableMap_iter a) = Inr (attrs a)"
proof -
  have "items_via (getitem a) (slots T)
          = Inr (map (\<lambda>s. (s, the (map_of kw s))) (slots T))"
    by (rule items_via_Inr) (rule getitem_constructed [OF assms])
  then show ?thesis
    using ImmutableMap_init_Inr(1,4) [OF assms] by (simp add: ImmutableMap_iter_def)
qed

lemma attrs_keys_constructed:
  assumes "ImmutableMap_init T kw = Inr a"
  shows "map fst (attrs a) = slots T"
  using ImmutableMap_init_Inr(4) [OF assms] by (simp add: comp_def)

section \<open>Equality of records\<close>

lemma Mapping_eq_constructed:
  assumes "ImmutableMap_init Ta kwa = Inr a" and "ImmutableMap_init Tb kwb = Inr b"
    and "plain_schema Ta" and "plain_schema Tb"
  shows "Mapping_eq (Instance a) (Instance b) = Inr (Bool (set (attrs a) = set (attrs b)))"
proof -
  have da: "distinct (map fst (attrs a))"
    using attrs_keys_constructed [OF assms(1)] ImmutableMap_init_Inr(2) [OF assms(1)] by simp
  have db: "distinct (map fst (attrs b))"
    using attrs_keys_constructed [OF assms(2)] ImmutableMap_init_Inr(2) [OF assms(2)] by simp
  show ?thesis
    by (simp add: Mapping_eq_def Mapping_items_def items_constructed [OF assms(1)]
        items_constructed [OF assms(2)] dict_of_distinct da db dict_eq_iff_set)
qed

lemma attrs_eq_iff_fields:
  assumes "ImmutableMap_init Ta kwa = Inr a" and "ImmutableMap_init Tb kwb = Inr b"
  shows "set (attrs a) = set (attrs b)
     \<longleftrightarrow> set (slots Ta) = set (slots Tb) \<and> (\<forall>s \<in> set (slots Ta). getattr a s = getattr b s)"
proof -
  have "set (slots Ta) = set (slots Tb) \<and> (\<forall>s \<in> set (slots Ta). getattr a s = getattr b s)
     \<longleftrightarrow> set (slots Ta) = set (slots Tb)
         \<and> (\<forall>s \<in> set (slots Ta). the (map_of kwa s) = the (map_of kwb s))"
    using getattr_constructed [OF assms(1)] getattr_constructed [OF assms(2)] by auto
  then show ?thesis
    by (simp only: ImmutableMap_init_Inr(4) [OF assms(1)] ImmutableMap_init_Inr(4) [OF assms(2)]
        set_graph_eq_iff)
qed

text \<open>
  Claim C2, as first stated: instances of two different record types never compare equal.
  They do when the two types have the same field names and the values agree: here a
  \<^verbatim>\<open>Header\<close> and a \<^verbatim>\<open>Protected\<close>, both with schema \<^verbatim>\<open>{typ, alg}\<close>.
\<close>

theorem ImmutableMap_eq_cross_type_counterexample:
  "ImmutableMap_init Header jwt_kwargs = Inr jwt_header
   \<and> ImmutableMap_init Protected jwt_kwargs = Inr protected_header
   \<and> itype jwt_header \<noteq> itype protected_header
   \<and> Mapping_eq (Instance jwt_header) (Instance protected_header) = Inr (Bool True)"
  by (simp add: ImmutableMap_init_def Header_def Protected_def jwt_kwargs_def jwt_header_def
      protected_header_def object_setattr_def Mapping_eq_def Mapping_items_def items_via_def
      getitem_def getattr_def ImmutableMap_iter_def dict_of_def dict_merge_def dict_eq_def)

text \<open>
  Claim C2, amended: the comparison of two record instances, of types with plain
  schemas, is always a truth value, never "not comparable", and the record types take no
  part in it: it is true iff the two schemas have the same field names and every field
  compares equal pairwise. For two instances of one type that is: iff every field
  compares equal pairwise.
\<close>

theorem ImmutableMap_eq_fields:
  assumes "ImmutableMap_init Ta kwa = Inr a" and "ImmutableMap_init Tb kwb = Inr b"
    and "plain_schema Ta" and "plain_schema Tb"
  shows "Mapping_eq (Instance a) (Instance b)
     = Inr (Bool (set (slots Ta) = set (slots Tb)
                  \<and> (\<forall>s \<in> set (slots Ta). getattr a s = getattr b s)))"
  using Mapping_eq_constructed [OF assms] attrs_eq_iff_fields [OF assms(1,2)] by simp

theorem ImmutableMap_eq_fields_witness:
  "ImmutableMap_init Header jwt_kwargs = Inr jwt_header
   \<and> ImmutableMap_init Header hs_kwargs = Inr hs_header
   \<and> plain_schema Header
   \<and> Mapping_eq (Instance jwt_header) (Instance hs_header) = Inr (Bool False)
   \<and> getattr jwt_header ''alg'' = Inr (PyStr ''RS256'')
   \<and> getattr hs_header ''alg'' = Inr (PyStr ''HS256'')"
proof -
  have a: "ImmutableMap_init Header jwt_kwargs = Inr jwt_header"
    by (simp add: ImmutableMap_init_def Header_def jwt_kwargs_def jwt_header_def
        object_setattr_def)
  have b: "ImmutableMap_init Header hs_kwargs = Inr hs_header"
    by (simp add: ImmutableMap_init_def Header_def hs_kwargs_def hs_header_def
        object_setattr_def)
  have ga: "getattr jwt_header ''alg'' = Inr (PyStr ''RS256'')"
    by (simp add: getattr_def jwt_header_def jwt_kwargs_def Header_def)
  have gb: "getattr hs_header ''alg'' = Inr (PyStr ''HS256'')"
    by (simp add: getattr_def hs_header_def hs_kwargs_def Header_def)
  have plain: "plain_schema Header"
    by (simp add: plain_schema_def Header_def ImmutableMap_namespace_def base_namespace_def)
  have "Mapping_eq (Instance jwt_header) (Instance hs_header) = Inr (Bool False)"
    using ImmutableMap_eq_fields [OF a b plain plain] ga gb by (simp add: Header_def)
  then show ?thesis using a b plain ga gb by simp
qed

section \<open>Equality and hash\<close>

lemma frozendict_sorted_items:
  "sorted_items (frozendict_make d)
     = Inr (map (\<lambda>k. (k, the (map_of d k))) (sort (map fst d)))"
proof -
  have found: "frozendict_getitem (frozendict_make d) k = Inr (the (map_of d k))"
    if "k \<in> set (sort (map fst d))" for k
  proof -
    from that have "k \<in> dom (map_of d)" by (simp add: dom_map_of_conv_image_fst)
    then show ?thesis by (auto simp: frozendict_getitem_def frozendict_make_def)
  qed
  have keys: "fd_keys (frozendict_make d) = sort (map fst d)"
    by (simp add: frozendict_make_def)
  show ?thesis
    unfolding sorted_items_def keys by (rule items_via_Inr) (rule found)
qed

lemma set_sorted_items:
  assumes "distinct (map fst d)"
  shows "set (map (\<lambda>k. (k, the (map_of d k))) (sort (map fst d))) = set d"
  using assms by (auto simp: image_iff) force

lemma frozendict_eq_iff:
  assumes "distinct (map fst d)" and "distinct (map fst d')"
  shows "Mapping_eq (FrozenDict (frozendict_make d)) (FrozenDict (frozendict_make d'))
     = Inr (Bool (set d = set d'))"
proof -
  let ?si = "\<lambda>d. map (\<lambda>k. (k, the (map_of d k))) (sort (map fst d))"
  have keys: "map fst (?si e) = sort (map fst e)" for e :: pydict
    by (simp add: comp_def)
  have items: "items_via (frozendict_getitem (frozendict_make e))
      (frozendict_iter (frozendict_make e)) = Inr (?si e)" for e
    using frozendict_sorted_items [of e]
    by (simp add: sorted_items_def frozendict_iter_def)
  have "dict_eq (dict_of (?si d)) (dict_of (?si d')) \<longleftrightarrow> set d = set d'"
    using assms
    by (simp add: dict_of_distinct dict_eq_iff_set keys set_sorted_items del: set_map map_map)
  then show ?thesis
    by (simp add: Mapping_eq_def Mapping_items_def items)
qed

lemma sorted_items_eq:
  assumes "distinct (map fst d)" and "distinct (map fst d')" and "set d = set d'"
  shows "sorted_items (frozendict_make d) = sorted_items (frozendict_make d')"
    and "sort (map fst d) = sort (map fst d')"
proof -
  have m: "map_of d = map_of d'"
    using assms by (simp add: map_of_inject_set)
  have "set (map fst d) = set (map fst d')" using assms(3) by simp
  then show k: "sort (map fst d) = sort (map fst d')"
    using assms(1,2) by (intro sorted_distinct_set_unique) simp_all
  show "sorted_items (frozendict_make d) = sorted_items (frozendict_make d')"
    by (simp add: frozendict_sorted_items m k)
qed

text \<open>
  A frozendict hashes the sorted items, the very bindings its equality compares: equal
  frozen mappings hash alike.
\<close>

lemma frozendict_hash_eq:
  assumes "distinct (map fst d)" and "distinct (map fst d')"
    and "Mapping_eq (FrozenDict (frozendict_make d)) (FrozenDict (frozendict_make d'))
           = Inr (Bool True)"
  shows "frozendict_hash H (frozendict_make d) = frozendict_hash H (frozendict_make d')"
proof -
  from assms have "set d = set d'" by (simp add: frozendict_eq_iff)
  from sorted_items_eq(1) [OF assms(1,2) this] show ?thesis
    by (simp add: frozendict_hash_def)
qed

text \<open>
  Claim C1: two values that compare equal have the same hash. At \<^verbatim>\<open>Point(x=1, y=2)\<close> and
  \<^verbatim>\<open>Tniop(x=1, y=2)\<close>, records of two types that declare the fields \<^verbatim>\<open>x\<close> and \<^verbatim>\<open>y\<close> in
  opposite orders, the code does otherwise: the inherited equality compares the bindings
  and answers true, while \<^verbatim>\<open>__hash__\<close> hashes the values in the order of \<^verbatim>\<open>__slots__\<close>,
  the tuple \<^verbatim>\<open>(1, 2)\<close> for the one and \<^verbatim>\<open>(2, 1)\<close> for the other, and under CPython these
  two hashes differ.
\<close>

theorem equal_records_hash_apart:
  "ImmutableMap_init Point point_kwargs = Inr point
   \<and> ImmutableMap_init Tniop point_kwargs = Inr tniop
   \<and> Mapping_eq (Instance point) (Instance tniop) = Inr (Bool True)
   \<and> ImmutableMap_hash (cpython_hash (\<lambda>v. 0)) point = Inr (- 3550055125485641917)
   \<and> ImmutableMap_hash (cpython_hash (\<lambda>v. 0)) tniop = Inr 6794810172467074373"
  by (simp add: ImmutableMap_init_def Point_def Tniop_def point_kwargs_def point_def
      tniop_def object_setattr_def Mapping_eq_def Mapping_items_def items_via_def
      getitem_def getattr_def ImmutableMap_iter_def dict_of_def dict_merge_def dict_eq_def
      ImmutableMap_hash_def int_hash_def tuplehash_def XXPRIME_1_def XXPRIME_2_def
      XXPRIME_5_def XXROTATE_def insert_commute)

section \<open>Frozen mappings built from equivalent sources\<close>

lemma frozendict_repr_make:
  "frozendict_repr R (frozendict_make d)
     = Inr (''frozendict(''
            @ join '', '' (map (\<lambda>k. k @ ''='' @ R (the (map_of d k))) (sort (map fst d)))
            @ '')'')"
  by (simp add: frozendict_repr_def frozendict_sorted_items comp_def)

lemma frozendict_hash_make:
  "frozendict_hash H (frozendict_make d)
     = Inr (H (PyTuple (map (\<lambda>k. PyTuple [PyStr k, the (map_of d k)]) (sort (map fst d)))))"
  by (simp add: frozendict_hash_def frozendict_sorted_items comp_def)

text \<open>
  Claim C8: a frozen mapping built from named bindings and one built from a single mapping
  with the same bindings, in whatever order, are equal, have the same hash, iterate over
  the keys in ascending order and print the bindings in that order.
\<close>

theorem frozendict_order_independent:
  assumes "kwargs \<noteq> []" and "distinct (map fst kwargs)" and "distinct (map fst m)"
    and "set kwargs = set m"
  shows "\<exists>a b. frozendict_init [] kwargs = Inr a \<and> frozendict_init [MappingArg m] [] = Inr b
      \<and> Mapping_eq (FrozenDict a) (FrozenDict b) = Inr (Bool True)
      \<and> (\<exists>n. frozendict_hash H a = Inr n \<and> frozendict_hash H b = Inr n)
      \<and> frozendict_iter a = sort (map fst kwargs)
      \<and> frozendict_iter b = frozendict_iter a
      \<and> sorted (frozendict_iter a)
      \<and> frozendict_repr R a
          = Inr (''frozendict(''
                 @ join '', '' (map (\<lambda>k. k @ ''='' @ R (the (map_of kwargs k)))
                                 (sort (map fst kwargs)))
                 @ '')'')
      \<and> frozendict_repr R b = frozendict_repr R a"
proof -
  let ?a = "frozendict_make kwargs" and ?b = "frozendict_make m"
  have a: "frozendict_init [] kwargs = Inr ?a"
    using assms(1) by (rule frozendict_init_kwargs)
  have b: "frozendict_init [MappingArg m] [] = Inr ?b"
    by (rule frozendict_init_mapping)
  have eq: "Mapping_eq (FrozenDict ?a) (FrozenDict ?b) = Inr (Bool True)"
    using assms by (simp add: frozendict_eq_iff)
  have keys: "sort (map fst kwargs) = sort (map fst m)"
    using assms(2-4) by (rule sorted_items_eq(2))
  have vals: "map_of kwargs = map_of m"
    using assms(2-4) by (simp add: map_of_inject_set)
  have hash: "frozendict_hash H ?b = frozendict_hash H ?a"
    by (simp add: frozendict_hash_make keys vals)
  have iter_a: "frozendict_iter ?a = sort (map fst kwargs)"
    by (simp add: frozendict_iter_def frozendict_make_def)
  have iter_b: "frozendict_iter ?b = frozendict_iter ?a"
    by (simp add: frozendict_iter_def frozendict_make_def keys)
  have srt: "sorted (frozendict_iter ?a)"
    by (simp add: iter_a)
  have repr_b: "frozendict_repr R ?b = frozendict_repr R ?a"
    by (simp add: frozendict_repr_make keys vals)
  show ?thesis
    using a b eq hash iter_a iter_b srt repr_b
      frozendict_hash_make [of H kwargs] frozendict_repr_make [of R kwargs]
    by (intro exI [of _ ?a] exI [of _ ?b]) simp
qed

theorem frozendict_order_independent_witness:
  "ab_kwargs \<noteq> [] \<and> distinct (map fst ab_kwargs) \<and> distinct (map fst ba_mapping)
   \<and> set ab_kwargs = set ba_mapping
   \<and> frozendict_init [] ab_kwargs = Inr \<lparr>fd_items = ab_kwargs, fd_keys = [''a'', ''b'']\<rparr>
   \<and> frozendict_init [MappingArg ba_mapping] []
       = Inr \<lparr>fd_items = ba_mapping, fd_keys = [''a'', ''b'']\<rparr>
   \<and> Mapping_eq (FrozenDict \<lparr>fd_items = ab_kwargs, fd_keys = [''a'', ''b'']\<rparr>)
        (FrozenDict \<lparr>fd_items = ba_mapping, fd_keys = [''a'', ''b'']\<rparr>) = Inr (Bool True)
   \<and> frozendict_hash (cpython_hash (\<lambda>v. 0)) \<lparr>fd_items = ab_kwargs, fd_keys = [''a'', ''b'']\<rparr>
       = frozendict_hash (cpython_hash (\<lambda>v. 0)) \<lparr>fd_items = ba_mapping, fd_keys = [''a'', ''b'']\<rparr>
   \<and> frozendict_iter \<lparr>fd_items = ba_mapping, fd_keys = [''a'', ''b'']\<rparr> = [''a'', ''b'']
   \<and> frozendict_repr example_repr \<lparr>fd_items = ab_kwargs, fd_keys = [''a'', ''b'']\<rparr>
       = Inr ''frozendict(a=1, b=2)''
   \<and> frozendict_repr example_repr \<lparr>fd_items = ba_mapping, fd_keys = [''a'', ''b'']\<rparr>
       = Inr ''frozendict(a=1, b=2)''"
proof -
  have h1: "ab_kwargs \<noteq> []" and h2: "distinct (map fst ab_kwargs)"
    and h3: "distinct (map fst ba_mapping)" and h4: "set ab_kwargs = set ba_mapping"
    by (auto simp: ab_kwargs_def ba_mapping_def)
  have ma: "frozendict_make ab_kwargs = \<lparr>fd_items = ab_kwargs, fd_keys = [''a'', ''b'']\<rparr>"
    by (simp add: frozendict_make_def ab_kwargs_def)
  have mb: "frozendict_make ba_mapping = \<lparr>fd_items = ba_mapping, fd_keys = [''a'', ''b'']\<rparr>"
    by (simp add: frozendict_make_def ba_mapping_def)
  have ia: "frozendict_init [] ab_kwargs = Inr (frozendict_make ab_kwargs)"
    using h1 by (rule frozendict_init_kwargs)
  have ib: "frozendict_init [MappingArg ba_mapping] [] = Inr (frozendict_make ba_mapping)"
    by (rule frozendict_init_mapping)
  have ra: "frozendict_repr example_repr (frozendict_make ab_kwargs)
              = Inr ''frozendict(a=1, b=2)''"
    by (simp add: frozendict_repr_make) (simp add: ab_kwargs_def example_repr_def)
  from frozendict_order_independent [OF h1 h2 h3 h4,
      of "cpython_hash (\<lambda>v. 0)" example_repr]
  obtain a b where "frozendict_init [] ab_kwargs = Inr a"
    and "frozendict_init [MappingArg ba_mapping] [] = Inr b"
    and eq: "Mapping_eq (FrozenDict a) (FrozenDict b) = Inr (Bool True)"
    and hash: "\<exists>n. frozendict_hash (cpython_hash (\<lambda>v. 0)) a = Inr n
                  \<and> frozendict_hash (cpython_hash (\<lambda>v. 0)) b = Inr n"
    and iter: "frozendict_iter a = sort (map fst ab_kwargs)"
              "frozendict_iter b = frozendict_iter a"
    and repr: "frozendict_repr example_repr b = frozendict_repr example_repr a"
    by blast
  with ia ib have a: "a = frozendict_make ab_kwargs" and b: "b = frozendict_make ba_mapping"
    by simp_all
  have it: "frozendict_iter (frozendict_make ba_mapping) = [''a'', ''b'']"
    using iter a b by (simp add: ab_kwargs_def)
  have hh: "frozendict_hash (cpython_hash (\<lambda>v. 0)) (frozendict_make ab_kwargs)
       = frozendict_hash (cpython_hash (\<lambda>v. 0)) (frozendict_make ba_mapping)"
    using hash a b by auto
  show ?thesis
    using h1 h2 h3 h4 ia ib eq hh it ra repr unfolding a b ma mb by simp
qed

section \<open>Update of a record\<close>

lemma dict_merge_Cons:
  "dict_merge d ((k, v) # ps) = dict_merge (AList.update k v d) ps"
  by (simp add: dict_merge_def)

lemma map_of_dict_merge: "map_of (dict_merge d ps) = map_of d ++ map_of (rev ps)"
proof (induction ps arbitrary: d)
  case Nil
  then show ?case by (simp add: dict_merge_def)
next
  case (Cons p ps)
  obtain k v where p: "p = (k, v)" by (cases p)
  have "map_of (dict_merge (AList.update k v d) ps)
          = map_of (AList.update k v d) ++ map_of (rev ps)"
    by (rule Cons.IH)
  then show ?case
    by (simp add: p dict_merge_Cons update_conv' map_add_upd_left)
qed

lemma map_of_rev_distinct: "distinct (map fst ps) \<Longrightarrow> map_of (rev ps) = map_of ps"
  by (simp add: map_of_inject_set rev_map [symmetric])

lemma dict_merge_keys: "fst ` set (dict_merge d ps) = fst ` set d \<union> fst ` set ps"
proof -
  have "dom (map_of (dict_merge d ps)) = dom (map_of d) \<union> dom (map_of (rev ps))"
    by (simp add: map_of_dict_merge Un_commute)
  then show ?thesis by (simp add: dom_map_of_conv_image_fst)
qed

text \<open>
  Claim C9: \<^verbatim>\<open>update\<close> with bindings for some of the fields, on a record of a type
  with a plain schema, returns a reference to a new record of the same type, in which
  those fields have the new values and every other field the value the receiver has; the
  receiver is still in the store as it was.
\<close>

theorem update_returns_new_record:
  assumes "ImmutableMap_init T kw = Inr obj" and "deref h self = Some (Instance obj)"
    and "distinct (map fst partial)" and "fst ` set partial \<subseteq> set (slots T)"
    and "plain_schema T"
  shows "\<exists>obj'. update self partial h = (Inr (length h), h @ [Instance obj'])
      \<and> self \<noteq> length h
      \<and> deref (h @ [Instance obj']) self = Some (Instance obj)
      \<and> deref (h @ [Instance obj']) (length h) = Some (Instance obj')
      \<and> itype obj' = T
      \<and> (\<forall>f \<in> set (slots T).
            getattr obj' f
              = (case map_of partial f of Some v \<Rightarrow> Inr v | None \<Rightarrow> getattr obj f))"
proof -
  let ?merged = "dict_merge (attrs obj) partial"
  have T: "itype obj = T" and dist: "distinct (slots T)"
    and stored: "attrs obj = map (\<lambda>s. (s, the (map_of kw s))) (slots T)"
    using ImmutableMap_init_Inr [OF assms(1)] by simp_all
  have keys: "map fst (attrs obj) = slots T"
    by (rule attrs_keys_constructed [OF assms(1)])
  have dict: "dict_of (attrs obj) = attrs obj"
    using keys dist by (simp add: dict_of_distinct)
  have "fst ` set (attrs obj) = set (slots T)"
    using arg_cong [OF keys, of set] by simp
  then have "fst ` set ?merged = set (slots T)"
    using assms(4) by (auto simp: dict_merge_keys)
  then have "set (map fst ?merged) = set (slots T)" by simp
  from ImmutableMap_init_total [OF dist this]
  obtain obj' where new: "ImmutableMap_init T ?merged = Inr obj'" by blast
  have upd: "update self partial h = (Inr (length h), h @ [Instance obj'])"
    using assms(2) items_constructed [OF assms(1)] dict new T
    by (simp add: update_def ImmutableMap_new_def)
  have valid: "self < length h" and at: "h ! self = Instance obj"
    using assms(2) by (auto simp: deref_def split: if_splits)
  have field: "getattr obj' f
      = (case map_of partial f of Some v \<Rightarrow> Inr v | None \<Rightarrow> getattr obj f)"
    if f: "f \<in> set (slots T)" for f
  proof -
    have old: "map_of (attrs obj) f = Some (the (map_of kw f))"
      using f by (simp add: stored map_of_graph)
    have "map_of ?merged f = (map_of (attrs obj) ++ map_of partial) f"
      using assms(3) by (simp add: map_of_dict_merge map_of_rev_distinct)
    then have "the (map_of ?merged f)
        = (case map_of partial f of Some v \<Rightarrow> v | None \<Rightarrow> the (map_of kw f))"
      using old by (simp add: map_add_def split: option.splits)
    then show ?thesis
      using getattr_constructed [OF new f] getattr_constructed [OF assms(1) f]
      by (simp split: option.splits)
  qed
  show ?thesis
    using upd valid at field ImmutableMap_init_Inr(1) [OF new]
    by (intro exI [of _ obj']) (simp add: deref_def nth_append)
qed

theorem update_returns_new_record_witness:
  "ImmutableMap_init Header jwt_kwargs = Inr jwt_header
   \<and> deref [Instance jwt_header] 0 = Some (Instance jwt_header)
   \<and> plain_schema Header
   \<and> distinct (map fst [(''alg'', PyStr ''HS256'')])
   \<and> fst ` set [(''alg'', PyStr ''HS256'')] \<subseteq> set (slots Header)
   \<and> update 0 [(''alg'', PyStr ''HS256'')] [Instance jwt_header]
       = (Inr 1, [Instance jwt_header, Instance hs_header])
   \<and> getattr hs_header ''typ'' = Inr (PyStr ''JWT'')
   \<and> getattr hs_header ''alg'' = Inr (PyStr ''HS256'')
   \<and> deref [Instance jwt_header, Instance hs_header] 0 = Some (Instance jwt_header)
   \<and> getattr jwt_header ''alg'' = Inr (PyStr ''RS256'')"
proof -
  let ?partial = "[(''alg'', PyStr ''HS256'')]"
  have c: "ImmutableMap_init Header jwt_kwargs = Inr jwt_header"
    by (rule jwt_header_constructed)
  have d: "deref [Instance jwt_header] 0 = Some (Instance jwt_header)"
    by (simp add: deref_def)
  have p1: "distinct (map fst ?partial)" by simp
  have p2: "fst ` set ?partial \<subseteq> set (slots Header)" by (simp add: Header_def)
  have p3: "plain_schema Header"
    by (simp add: plain_schema_def Header_def ImmutableMap_namespace_def base_namespace_def)
  from update_returns_new_record [OF c d p1 p2 p3]
  obtain obj' where u: "update 0 ?partial [Instance jwt_header]
        = (Inr (length [Instance jwt_header]), [Instance jwt_header] @ [Instance obj'])"
    and ty: "itype obj' = Header"
    and fields: "\<forall>f \<in> set (slots Header).
            getattr obj' f
              = (case map_of ?partial f of Some v \<Rightarrow> Inr v | None \<Rightarrow> getattr jwt_header f)"
    by blast
  have run: "update 0 ?partial [Instance jwt_header]
        = (Inr 1, [Instance jwt_header, Instance hs_header])"
    by (simp add: update_def deref_def items_via_def getitem_def getattr_def
        ImmutableMap_iter_def ImmutableMap_new_def ImmutableMap_init_def dict_of_def
        dict_merge_def object_setattr_def jwt_header_def jwt_kwargs_def hs_header_def
        hs_kwargs_def Header_def)
  with u have same: "obj' = hs_header" by simp
  have old: "getattr jwt_header ''alg'' = Inr (PyStr ''RS256'')"
    by (simp add: getattr_def jwt_header_def jwt_kwargs_def Header_def)
  have kept: "getattr jwt_header ''typ'' = Inr (PyStr ''JWT'')"
    by (simp add: getattr_def jwt_header_def jwt_kwargs_def Header_def)
  from fields same have "getattr hs_header ''typ'' = Inr (PyStr ''JWT'')"
    and "getattr hs_header ''alg'' = Inr (PyStr ''HS256'')"
    using kept by (simp_all add: Header_def)
  then show ?thesis
    using c d p1 p2 p3 run old by (simp add: deref_def)
qed

section \<open>Further facts on lookup and update\<close>

text \<open>On the fields of the schema, item lookup and attribute access give the stored value.\<close>

lemma getitem_field:
  assumes "ImmutableMap_init T kw = Inr a" and "s \<in> set (slots T)"
  shows "getitem a s = getattr a s \<and> getattr a s = Inr (the (map_of kw s))"
  using getitem_constructed [OF assms] getattr_constructed [OF assms] by simp

text \<open>A name that is neither a field nor found on the class is a \<^verbatim>\<open>KeyError\<close>.\<close>

lemma getitem_absent:
  assumes "name \<notin> set (slots (itype a))"
    and "name \<notin> set ImmutableMap_namespace \<union> set (inherited (itype a))"
  shows "getitem a name = Inl (KeyError name)"
  using assms by (simp add: getitem_def getattr_def)

text \<open>A name found on the class resolves, whatever the schema says.\<close>

lemma getitem_class_attribute:
  assumes "name \<notin> set (slots (itype a))" and "name \<in> set ImmutableMap_namespace"
  shows "getitem a name = Inr (PyClassAttr (cname (itype a)) name)"
  using assms by (simp add: getitem_def getattr_def)

text \<open>
  \<^verbatim>\<open>update\<close> with a name outside the schema reaches \<^verbatim>\<open>__init__\<close> with one keyword too
  many: a \<^verbatim>\<open>TypeError\<close>, and the store is left as it was.
\<close>

lemma update_unknown_field:
  assumes "ImmutableMap_init T kw = Inr obj" and "deref h self = Some (Instance obj)"
    and "\<not> fst ` set partial \<subseteq> set (slots T)" and "plain_schema T"
  shows "\<exists>msg. update self partial h = (Inl (TypeError msg), h)"
proof -
  let ?merged = "dict_merge (attrs obj) partial"
  have T: "itype obj = T" and dist: "distinct (slots T)"
    using ImmutableMap_init_Inr [OF assms(1)] by simp_all
  have keys: "map fst (attrs obj) = slots T"
    by (rule attrs_keys_constructed [OF assms(1)])
  have dict: "dict_of (attrs obj) = attrs obj"
    using keys dist by (simp add: dict_of_distinct)
  have "fst ` set ?merged \<noteq> set (slots T)"
    using assms(3) by (auto simp: dict_merge_keys)
  then have "ImmutableMap_init T ?merged = Inl (TypeError (init_message T ?merged))"
    by (simp add: ImmutableMap_init_def)
  then show ?thesis
    using assms(2) items_constructed [OF assms(1)] dict T
    by (simp add: update_def ImmutableMap_new_def)
qed

end
